theory Spec2Isabelle
  imports Complex_Main
begin

section \<open>Decoded JSON, as Python holds it\<close>

text \<open>
  \<open>resp.json()\<close> yields Python values: \<open>None\<close>, \<open>bool\<close>, \<open>int\<close>, \<open>float\<close>,
  \<open>str\<close>, \<open>list\<close> and \<open>dict\<close>. A \<open>dict\<close> keeps its keys in insertion order and
  pandas takes the column order from it, so a dict is an association list (its keys are
  distinct in Python; no theorem below depends on that). A \<open>str\<close> is written as its
  UTF-8 bytes: two Python strings are equal exactly when their encodings are. Floats are
  written as reals; the only arithmetic on them is the conversion of an integer to the
  float nearest to it.
\<close>

datatype json =
    JNull
  | JBool bool
  | JInt int
  | JFloat real
  | JStr string
  | JArr "json list"
  | JObj "(string \<times> json) list"

type_synonym dict = "(string \<times> json) list"

text \<open>\<open>d.get(k, default)\<close>.\<close>

definition dict_get :: "dict \<Rightarrow> string \<Rightarrow> json \<Rightarrow> json" where
  "dict_get d k dflt = (case map_of d k of Some v \<Rightarrow> v | None \<Rightarrow> dflt)"

text \<open>Python's truth value of a decoded JSON value, as \<open>if not hourly\<close> tests it.\<close>

fun truthy :: "json \<Rightarrow> bool" where
  "truthy JNull = False"
| "truthy (JBool b) = b"
| "truthy (JInt i) = (i \<noteq> 0)"
| "truthy (JFloat r) = (r \<noteq> 0)"
| "truthy (JStr s) = (s \<noteq> [])"
| "truthy (JArr xs) = (xs \<noteq> [])"
| "truthy (JObj kvs) = (kvs \<noteq> [])"


section \<open>The weather client: \<open>fetch_weather\<close>\<close>

text \<open>
  The values of the \<open>params\<close> dict are a float, the Python constant \<open>True\<close> and string
  literals. A request is what \<open>requests.get\<close> is called with: the URL, the parameters
  in the order of the dict literal, and the timeout in seconds.
\<close>

datatype param_value = PFloat real | PBool bool | PStr string

record request =
  url :: string
  params :: "(string \<times> param_value) list"
  timeout :: nat

text \<open>
  What the call can raise: \<open>requests.get\<close> raises \<open>ConnectionError\<close> when the network
  fails and \<open>Timeout\<close> when the timeout elapses, \<open>raise_for_status\<close> raises
  \<open>HTTPError\<close> (here with the status code it reports), and \<open>resp.json()\<close> raises
  \<open>JSONDecodeError\<close> on a body that is not JSON. The source catches none of them, so
  each leaves \<open>fetch_weather\<close> as it was raised.
\<close>

datatype request_exception =
    ConnectionError
  | Timeout
  | HTTPError int
  | JSONDecodeError

text \<open>
  Of a response the source reads the status (through \<open>raise_for_status\<close>) and the
  decoded body (through \<open>json()\<close>); \<open>body_json\<close> is \<open>None\<close> for a body that does not
  decode.
\<close>

record response =
  status_code :: int
  body_json :: "json option"

datatype get_outcome = Raises request_exception | Responds response

text \<open>
  The network is state: \<open>provider\<close> says how the outside world answers a request, given
  the requests made before it, and \<open>calls\<close> records every call of \<open>requests.get\<close>
  in order.
\<close>

record net =
  provider :: "request list \<Rightarrow> request \<Rightarrow> get_outcome"
  calls :: "request list"

definition OPEN_METEO_URL :: string where
  "OPEN_METEO_URL = ''https://api.open-meteo.com/v1/forecast''"

definition requests_get :: "string \<Rightarrow> (string \<times> param_value) list \<Rightarrow> nat \<Rightarrow> net
    \<Rightarrow> get_outcome \<times> net" where
  "requests_get u ps t n =
     (let rq = \<lparr>url = u, params = ps, timeout = t\<rparr>
      in (provider n (calls n) rq, n\<lparr>calls := calls n @ [rq]\<rparr>))"

text \<open>
  \<open>Response.raise_for_status\<close> of the requests library: it raises for a status from 400
  to 499 (client error) and from 500 to 599 (server error), and for no other status.
\<close>

definition raise_for_status :: "response \<Rightarrow> request_exception option" where
  "raise_for_status resp =
     (if 400 \<le> status_code resp \<and> status_code resp < 500 then Some (HTTPError (status_code resp))
      else if 500 \<le> status_code resp \<and> status_code resp < 600 then Some (HTTPError (status_code resp))
      else None)"

definition fetch_weather :: "real \<Rightarrow> real \<Rightarrow> net \<Rightarrow> (request_exception + json) \<times> net" where
  "fetch_weather latitude longitude n =
     (let ps = [(''latitude'', PFloat latitude),
                (''longitude'', PFloat longitude),
                (''current_weather'', PBool True),
                (''hourly'', PStr ''temperature_2m,relative_humidity_2m,precipitation,wind_speed_10m''),
                (''timezone'', PStr ''auto'')];
          (out, n') = requests_get OPEN_METEO_URL ps 10 n
      in case out of
           Raises e \<Rightarrow> (Inl e, n')
         | Responds resp \<Rightarrow>
             (case raise_for_status resp of
                Some e \<Rightarrow> (Inl e, n')
              | None \<Rightarrow>
                  (case body_json resp of
                     None \<Rightarrow> (Inl JSONDecodeError, n')
                   | Some j \<Rightarrow> (Inr j, n'))))"

text \<open>The coordinates of the data model: latitude in [-90, 90], longitude in [-180, 180].\<close>

definition valid_coordinate :: "real \<Rightarrow> real \<Rightarrow> bool" where
  "valid_coordinate latitude longitude =
     (- 90 \<le> latitude \<and> latitude \<le> 90 \<and> - 180 \<le> longitude \<and> longitude \<le> 180)"


section \<open>The hourly normaliser: \<open>make_hourly_df\<close>\<close>

subsection \<open>Cells and the dtype of a column\<close>

text \<open>
  pandas stores each column in one dtype, so a cell is not always the value that was
  given. A cell is a value or the float \<open>NaN\<close>. In a column of dtype \<open>float64\<close> every
  cell is a float or \<open>NaN\<close>; in a column of dtype \<open>int64\<close>, \<open>bool\<close> or \<open>object\<close> the
  cells are the Python values themselves.
\<close>

datatype cell = Val json | NaN

text \<open>The integers that fit the dtype \<open>int64\<close>.\<close>

definition int64 :: "int \<Rightarrow> bool" where
  "int64 i = (- (2 ^ 63) \<le> i \<and> i < 2 ^ 63)"

fun big_int :: "json \<Rightarrow> bool" where
  "big_int (JInt i) = (\<not> int64 i)"
| "big_int v = False"

fun is_number :: "json \<Rightarrow> bool" where
  "is_number (JInt i) = True"
| "is_number (JFloat r) = True"
| "is_number v = False"

fun float_or_null :: "json \<Rightarrow> bool" where
  "float_or_null (JFloat r) = True"
| "float_or_null JNull = True"
| "float_or_null v = False"

fun numeric_or_null :: "json \<Rightarrow> bool" where
  "numeric_or_null (JInt i) = True"
| "numeric_or_null (JFloat r) = True"
| "numeric_or_null JNull = True"
| "numeric_or_null v = False"

text \<open>
  A list becomes a \<open>float64\<close> column when it holds only numbers and \<open>None\<close>, at least
  one number, and at least one float or \<open>None\<close>. Every other list keeps its values: ints
  alone (\<open>int64\<close>), bools alone (\<open>bool\<close>), and anything with a string, a list, a dict or
  a bool among other values (\<open>object\<close>).
\<close>

definition float_column :: "json list \<Rightarrow> bool" where
  "float_column xs = (list_all numeric_or_null xs \<and> list_ex is_number xs \<and> list_ex float_or_null xs)"

text \<open>
  The float nearest to an integer: \<open>float64\<close> has 53 significant bits, so an integer of
  more bits is rounded to a multiple of the power of two that drops the excess bits, a
  tie going to the even multiple.
\<close>

function bit_length :: "int \<Rightarrow> nat" where
  "bit_length a = (if a \<le> 0 then 0 else Suc (bit_length (a div 2)))"
  by pat_completeness auto
termination
  by (relation "measure nat") auto

declare bit_length.simps [simp del]

definition float64_of_int :: "int \<Rightarrow> real" where
  "float64_of_int i =
     (let a = \<bar>i\<bar>; n = bit_length a
      in if n \<le> 53 then real_of_int i
         else
           (let e = n - 53;
                q = a div 2 ^ e;
                r = a mod 2 ^ e;
                h = 2 ^ (e - 1);
                q' = (if h < r \<or> (r = h \<and> odd q) then q + 1 else q)
            in real_of_int ((if i < 0 then - 1 else 1) * (q' * 2 ^ e))))"

fun to_float64 :: "json \<Rightarrow> cell" where
  "to_float64 (JInt i) = Val (JFloat (float64_of_int i))"
| "to_float64 (JFloat r) = Val (JFloat r)"
| "to_float64 v = NaN"

definition coerce_column :: "json list \<Rightarrow> cell list" where
  "coerce_column xs = (if float_column xs then map to_float64 xs else map Val xs)"

subsection \<open>Frames\<close>

text \<open>
  A timestamp of pandas is a point in time or the missing timestamp \<open>NaT\<close>. A
  \<open>DataFrame\<close> is its row index and its columns in order, each a label with one cell per
  row. The index is either the positional default (\<open>RangeIndex\<close> of a length) or the
  timestamps that \<open>set_index("time")\<close> put there. Column labels may repeat, as pandas
  allows.
\<close>

datatype 'ts timestamp = NaT | Timestamp 'ts

datatype 'ts index = RangeIndex nat | DatetimeIndex "'ts timestamp list"

record 'ts frame =
  index :: "'ts index"
  columns :: "(string \<times> cell list) list"

fun index_size :: "'ts index \<Rightarrow> nat" where
  "index_size (RangeIndex n) = n"
| "index_size (DatetimeIndex ts) = length ts"

definition n_rows :: "'ts frame \<Rightarrow> nat" where
  "n_rows df = index_size (index df)"

definition n_columns :: "'ts frame \<Rightarrow> nat" where
  "n_columns df = length (columns df)"

text \<open>
  The errors of the pandas calls: \<open>ValueError\<close>, \<open>TypeError\<close> and \<open>OverflowError\<close> from
  the constructor, and the error of \<open>pd.to_datetime\<close> on a cell it cannot convert, with
  that cell.
\<close>

datatype exn = ValueError | TypeError | OverflowError | DateParseError cell

text \<open>
  Three parts of pandas are parameters, since the source does not fix them:
  \<^item> \<open>to_timestamp col x\<close> is the conversion \<open>pd.to_datetime\<close> applies to a value \<open>x\<close>
    of the column \<open>col\<close> that is neither \<open>None\<close> nor the empty string (the column is
    given because pandas may choose the format from it); \<open>None\<close> when pandas rejects
    the value;
  \<^item> \<open>frame_of_irregular\<close> is what \<open>pd.DataFrame\<close> does with data that is not a dict
    of lists (a scalar, a list, a dict with scalar or dict values);
  \<^item> \<open>column_of_big_ints\<close> is the column pandas makes of a list that holds an integer
    outside \<open>int64\<close>.
  Every theorem below holds for all values of the three.
\<close>

record 'ts pandas =
  to_timestamp :: "cell list \<Rightarrow> json \<Rightarrow> 'ts timestamp option"
  frame_of_irregular :: "json \<Rightarrow> exn + 'ts frame"
  column_of_big_ints :: "json list \<Rightarrow> exn + cell list"

text \<open>\<open>pd.DataFrame()\<close>: no rows and no columns.\<close>

definition empty_frame :: "'ts frame" where
  "empty_frame = \<lparr>index = RangeIndex 0, columns = []\<rparr>"

text \<open>The values of a dict when every one of them is a list, else \<open>None\<close>.\<close>

fun as_arrays :: "dict \<Rightarrow> (string \<times> json list) list option" where
  "as_arrays [] = Some []"
| "as_arrays ((k, v) # kvs) =
     (case v of
        JArr xs \<Rightarrow> (case as_arrays kvs of Some cols \<Rightarrow> Some ((k, xs) # cols) | None \<Rightarrow> None)
      | _ \<Rightarrow> None)"

text \<open>
  \<open>pd.DataFrame(data)\<close> on a dict of lists: a \<open>ValueError\<close> ("All arrays must be of the
  same length") when two lists differ in length; otherwise one column per key, in the
  order of the dict, each list coerced to its dtype, and the positional index of the
  common length.
\<close>

definition same_length :: "(string \<times> json list) list \<Rightarrow> bool" where
  "same_length cols = (case cols of [] \<Rightarrow> True | c # cs \<Rightarrow> list_all (\<lambda>d. length (snd d) = length (snd c)) cs)"

definition column_cells :: "'ts pandas \<Rightarrow> json list \<Rightarrow> exn + cell list" where
  "column_cells P xs = (if list_ex big_int xs then column_of_big_ints P xs else Inr (coerce_column xs))"

text \<open>Every integer of every list fits \<open>int64\<close>.\<close>

definition small_ints :: "(string \<times> json list) list \<Rightarrow> bool" where
  "small_ints cols = list_all (\<lambda>c. \<not> list_ex big_int (snd c)) cols"

fun build_columns :: "'ts pandas \<Rightarrow> (string \<times> json list) list \<Rightarrow> exn + (string \<times> cell list) list" where
  "build_columns P [] = Inr []"
| "build_columns P (c # cols) =
     (case column_cells P (snd c) of
        Inl e \<Rightarrow> Inl e
      | Inr cells \<Rightarrow>
          (case build_columns P cols of
             Inl e \<Rightarrow> Inl e
           | Inr cs \<Rightarrow> Inr ((fst c, cells) # cs)))"

definition pd_DataFrame :: "'ts pandas \<Rightarrow> json \<Rightarrow> exn + 'ts frame" where
  "pd_DataFrame P data =
     (case data of
        JObj d \<Rightarrow>
          (case as_arrays d of
             Some cols \<Rightarrow>
               if same_length cols
               then (case build_columns P cols of
                       Inl e \<Rightarrow> Inl e
                     | Inr cs \<Rightarrow>
                         Inr \<lparr>index = RangeIndex (case cols of [] \<Rightarrow> 0 | c # _ \<Rightarrow> length (snd c)),
                              columns = cs\<rparr>)
               else Inl ValueError
           | None \<Rightarrow> frame_of_irregular P data)
      | _ \<Rightarrow> frame_of_irregular P data)"

text \<open>
  \<open>pd.to_datetime(col)\<close> with its default \<open>errors="raise"\<close>. A missing cell (\<open>NaN\<close>,
  \<open>None\<close>) and the empty string become \<open>NaT\<close> without an error. Every other cell is
  converted, and the first one that is rejected raises; no partial result comes back.
\<close>

definition convert_element :: "'ts pandas \<Rightarrow> cell list \<Rightarrow> cell \<Rightarrow> 'ts timestamp option" where
  "convert_element P col c =
     (case c of
        NaN \<Rightarrow> Some NaT
      | Val x \<Rightarrow> if x = JNull \<or> x = JStr [] then Some NaT else to_timestamp P col x)"

fun convert_all :: "(cell \<Rightarrow> 'ts timestamp option) \<Rightarrow> cell list \<Rightarrow> exn + 'ts timestamp list" where
  "convert_all f [] = Inr []"
| "convert_all f (x # xs) =
     (case f x of
        None \<Rightarrow> Inl (DateParseError x)
      | Some t \<Rightarrow> (case convert_all f xs of Inl e \<Rightarrow> Inl e | Inr ts \<Rightarrow> Inr (t # ts)))"

definition pd_to_datetime :: "'ts pandas \<Rightarrow> cell list \<Rightarrow> exn + 'ts timestamp list" where
  "pd_to_datetime P col = convert_all (convert_element P col) col"

text \<open>
  Lines 43 and 44 of the source, for a frame that has a \<open>time\<close> column:
  \<open>df["time"] = pd.to_datetime(df["time"])\<close> and \<open>df = df.set_index("time")\<close>. The
  converted column becomes the index and leaves the columns.
\<close>

definition time_to_index :: "'ts pandas \<Rightarrow> 'ts frame \<Rightarrow> exn + 'ts frame" where
  "time_to_index P df =
     (case map_of (columns df) ''time'' of
        None \<Rightarrow> Inr df
      | Some col \<Rightarrow>
          (case pd_to_datetime P col of
             Inl e \<Rightarrow> Inl e
           | Inr ts \<Rightarrow> Inr \<lparr>index = DatetimeIndex ts,
                            columns = filter (\<lambda>c. fst c \<noteq> ''time'') (columns df)\<rparr>))"

text \<open>
  The \<open>rename_map\<close> of the source. The degree sign is U+00B0, the bytes C2 B0 in UTF-8.
\<close>

definition rename_map :: "(string \<times> string) list" where
  "rename_map =
     [(''temperature_2m'', ''Temperature ('' @ [CHR 0xC2, CHR 0xB0] @ ''C)''),
      (''relative_humidity_2m'', ''Humidity (%)''),
      (''precipitation'', ''Precipitation (mm)''),
      (''wind_speed_10m'', ''Wind speed (km/h)'')]"

text \<open>\<open>df.rename(columns=mapper)\<close>: a label that is a key of the mapper is replaced.\<close>

definition df_rename :: "(string \<times> string) list \<Rightarrow> 'ts frame \<Rightarrow> 'ts frame" where
  "df_rename mapper df =
     df\<lparr>columns :=
          map (\<lambda>c. (case map_of mapper (fst c) of Some l \<Rightarrow> l | None \<Rightarrow> fst c, snd c)) (columns df)\<rparr>"

text \<open>
  Lines 47 to 53: the mapper is \<open>rename_map\<close> restricted to the keys that are columns of
  the frame.
\<close>

definition rename_columns :: "'ts frame \<Rightarrow> 'ts frame" where
  "rename_columns df =
     df_rename (filter (\<lambda>kv. fst kv \<in> set (map fst (columns df))) rename_map) df"

definition make_hourly_df :: "'ts pandas \<Rightarrow> dict \<Rightarrow> exn + 'ts frame" where
  "make_hourly_df P weather_json =
     (let hourly = dict_get weather_json ''hourly'' (JObj [])
      in if \<not> truthy hourly then Inr empty_frame
         else
           (case pd_DataFrame P hourly of
              Inl e \<Rightarrow> Inl e
            | Inr df \<Rightarrow>
                (case (if ''time'' \<in> set (map fst (columns df)) then time_to_index P df else Inr df) of
                   Inl e \<Rightarrow> Inl e
                 | Inr df' \<Rightarrow> Inr (rename_columns df'))))"


section \<open>The vocabulary of the specification\<close>

text \<open>
  The specification counts the statuses 200 to 299 as success, names four known hourly
  fields, and gives each a display label; every other key is its own label. These
  definitions follow the specification's words and are compared with the source below.
\<close>

definition is_2xx :: "int \<Rightarrow> bool" where
  "is_2xx s = (200 \<le> s \<and> s < 300)"


definition display_label :: "string \<Rightarrow> string" where
  "display_label k =
     (if k = ''temperature_2m'' then ''Temperature ('' @ [CHR 0xC2, CHR 0xB0] @ ''C)''
      else if k = ''relative_humidity_2m'' then ''Humidity (%)''
      else if k = ''precipitation'' then ''Precipitation (mm)''
      else if k = ''wind_speed_10m'' then ''Wind speed (km/h)''
      else k)"


section \<open>Concrete instances\<close>

text \<open>
  A network that has seen no call and answers every request with one fixed outcome, and
  an instance of the pandas parameters in which a timestamp is kept as its text, a string
  is accepted when it has the shape of \<open>2024-01-01T00:00\<close> (sixteen characters with a
  \<open>T\<close> in the middle), irregular data is refused and a list with a big integer
  keeps its values. They serve to run the
  definitions on concrete inputs.
\<close>

definition answering :: "get_outcome \<Rightarrow> net" where
  "answering out = \<lparr>provider = (\<lambda>before rq. out), calls = []\<rparr>"

definition text_pandas :: "string pandas" where
  "text_pandas =
     \<lparr>to_timestamp =
        (\<lambda>col x. case x of
                    JStr s \<Rightarrow> if length s = 16 \<and> s ! 10 = CHR ''T'' then Some (Timestamp s) else None
                  | _ \<Rightarrow> None),
      frame_of_irregular = (\<lambda>data. Inl ValueError),
      column_of_big_ints = (\<lambda>xs. Inr (map Val xs))\<rparr>"


section \<open>Facts about the parts\<close>

lemma as_arrays_keys: "as_arrays d = Some cols \<Longrightarrow> map fst cols = map fst d"
  by (induction d arbitrary: cols) (auto split: json.splits option.splits)

lemma as_arrays_empty: "as_arrays d = Some cols \<Longrightarrow> (cols = []) = (d = [])"
  by (cases d) (auto split: json.splits option.splits)

lemma same_length_iff:
  "same_length cols = (\<forall>c\<in>set cols. \<forall>d\<in>set cols. length (snd c) = length (snd d))"
proof (cases cols)
  case Nil
  then show ?thesis by (simp add: same_length_def)
next
  case (Cons c cs)
  then show ?thesis
    unfolding same_length_def list_all_iff by simp metis
qed

lemma length_coerce_column: "length (coerce_column xs) = length xs"
  by (simp add: coerce_column_def)

lemma coerce_column_with_string: "JStr s \<in> set xs \<Longrightarrow> coerce_column xs = map Val xs"
proof -
  assume "JStr s \<in> set xs"
  moreover have "\<not> numeric_or_null (JStr s)"
    by simp
  ultimately have "\<not> list_all numeric_or_null xs"
    unfolding list_all_iff by blast
  then show ?thesis
    by (simp add: coerce_column_def float_column_def)
qed

lemma build_columns_small:
  "small_ints cols \<Longrightarrow>
   build_columns P cols = Inr (map (\<lambda>c. (fst c, coerce_column (snd c))) cols)"
  by (induction cols) (auto simp: column_cells_def small_ints_def)

lemma map_of_coerced:
  "map_of (map (\<lambda>c. (fst c, f (snd c))) cols) k = map_option f (map_of cols k)"
  by (induction cols) auto

lemma map_of_restrict:
  "map_of (filter (\<lambda>kv. fst kv \<in> S) m) k = (if k \<in> S then map_of m k else None)"
  by (induction m) auto

lemma rename_map_label:
  "(case map_of rename_map k of Some l \<Rightarrow> l | None \<Rightarrow> k) = display_label k"
  by (simp add: rename_map_def display_label_def)

lemma columns_rename_columns:
  "columns (rename_columns df) = map (\<lambda>c. (display_label (fst c), snd c)) (columns df)"
proof -
  have "(case map_of (filter (\<lambda>kv. fst kv \<in> set (map fst (columns df))) rename_map) (fst c) of
           Some l \<Rightarrow> l | None \<Rightarrow> fst c) = display_label (fst c)"
    if "c \<in> set (columns df)" for c
  proof -
    from that have "fst c \<in> set (map fst (columns df))" by simp
    then show ?thesis
      by (simp only: map_of_restrict if_True rename_map_label)
  qed
  then show ?thesis
    by (simp add: rename_columns_def df_rename_def)
qed

lemma index_rename_columns: "index (rename_columns df) = index df"
  by (simp add: rename_columns_def df_rename_def)

lemma rename_columns_frame:
  "rename_columns \<lparr>index = i, columns = cs\<rparr> =
     \<lparr>index = i, columns = map (\<lambda>c. (display_label (fst c), snd c)) cs\<rparr>"
  using columns_rename_columns [of "\<lparr>index = i, columns = cs\<rparr>"]
    index_rename_columns [of "\<lparr>index = i, columns = cs\<rparr>"]
  by (cases "rename_columns \<lparr>index = i, columns = cs\<rparr>") simp

lemma display_label_idem: "display_label (display_label k) = display_label k"
  by (simp add: display_label_def)



lemma convert_all_rejects:
  "x \<in> set xs \<Longrightarrow> f x = None \<Longrightarrow>
   \<exists>y\<in>set xs. f y = None \<and> convert_all f xs = Inl (DateParseError y)"
proof (induction xs)
  case Nil
  then show ?case by simp
next
  case (Cons a xs)
  show ?case
  proof (cases "f a")
    case None
    then show ?thesis by auto
  next
    case (Some t)
    with Cons.prems have "x \<in> set xs" by auto
    from Cons.IH [OF this Cons.prems(2)] Some show ?thesis by auto
  qed
qed

text \<open>What \<open>make_hourly_df\<close> computes for a dict of lists whose lists differ in length.\<close>

lemma make_hourly_df_mismatch:
  assumes "map_of weather_json ''hourly'' = Some (JObj h)" and "as_arrays h = Some cols"
    and "\<not> same_length cols"
  shows "make_hourly_df P weather_json = Inl ValueError"
proof -
  from assms(3) have "cols \<noteq> []"
    by (auto simp: same_length_def)
  with as_arrays_empty [OF assms(2)] have "h \<noteq> []" by simp
  with assms show ?thesis
    by (simp add: make_hourly_df_def dict_get_def pd_DataFrame_def)
qed

text \<open>What it computes for a dict of lists whose integers fit \<open>int64\<close>.\<close>

lemma make_hourly_df_arrays:
  assumes "map_of weather_json ''hourly'' = Some (JObj h)" and "as_arrays h = Some cols"
    and "small_ints cols"
  shows "make_hourly_df P weather_json =
     (if h = [] then Inr empty_frame
      else if \<not> same_length cols then Inl ValueError
      else case map_of cols ''time'' of
             None \<Rightarrow>
               Inr \<lparr>index = RangeIndex (case cols of [] \<Rightarrow> 0 | c # _ \<Rightarrow> length (snd c)),
                    columns = map (\<lambda>c. (display_label (fst c), coerce_column (snd c))) cols\<rparr>
           | Some col \<Rightarrow>
               (case pd_to_datetime P (coerce_column col) of
                  Inl e \<Rightarrow> Inl e
                | Inr ts \<Rightarrow>
                    Inr \<lparr>index = DatetimeIndex ts,
                         columns = map (\<lambda>c. (display_label (fst c), coerce_column (snd c)))
                                     (filter (\<lambda>c. fst c \<noteq> ''time'') cols)\<rparr>))"
proof -
  let ?cs = "map (\<lambda>c. (fst c, coerce_column (snd c))) cols"
  have t: "(''time'' \<in> fst ` set cols) = (map_of cols ''time'' \<noteq> None)"
    by (simp add: map_of_eq_None_iff)
  have k: "fst ` set ?cs = fst ` set cols"
    by force
  have m: "map_of ?cs ''time'' = map_option coerce_column (map_of cols ''time'')"
    by (rule map_of_coerced)
  have f: "filter (\<lambda>c. fst c \<noteq> ''time'') ?cs =
           map (\<lambda>c. (fst c, coerce_column (snd c))) (filter (\<lambda>c. fst c \<noteq> ''time'') cols)"
    by (simp add: filter_map comp_def)
  have p: "pd_DataFrame P (JObj h) =
      (if same_length cols
       then Inr \<lparr>index = RangeIndex (case cols of [] \<Rightarrow> 0 | c # _ \<Rightarrow> length (snd c)), columns = ?cs\<rparr>
       else Inl ValueError)"
    using assms(2,3) by (simp add: pd_DataFrame_def build_columns_small)
  show ?thesis
  proof (cases "h = []")
    case True
    with assms(1) show ?thesis
      by (simp add: make_hourly_df_def dict_get_def)
  next
    case False
    show ?thesis
    proof (cases "same_length cols")
      case False
      with \<open>h \<noteq> []\<close> make_hourly_df_mismatch [OF assms(1,2) False, of P] show ?thesis
        by simp
    next
      case True
      show ?thesis
      proof (cases "map_of cols ''time''")
        case None
        with True \<open>h \<noteq> []\<close> assms(1) p t k show ?thesis
          by (simp add: make_hourly_df_def dict_get_def rename_columns_frame comp_def)
      next
        case (Some col)
        with True \<open>h \<noteq> []\<close> assms(1) p t k m f show ?thesis
          by (simp add: make_hourly_df_def dict_get_def time_to_index_def rename_columns_frame
                comp_def split: sum.splits)
      qed
    qed
  qed
qed

lemma map_of_filter_keep:
  "Q k \<Longrightarrow> map_of (filter (\<lambda>kv. Q (fst kv)) w) k = map_of w k"
  by (induction w) auto


section \<open>The weather client\<close>

text \<open>
  C1. For every valid coordinate pair, \<open>fetch_weather\<close> makes its call of
  \<open>requests.get\<close> with the forecast URL, exactly the parameters \<open>latitude\<close>,
  \<open>longitude\<close>, \<open>current_weather\<close> = \<open>True\<close>, \<open>hourly\<close> = the fixed comma-joined
  list and \<open>timezone\<close> = \<open>auto\<close>, and a timeout of 10 seconds; and when the provider
  answers with status 200 and a body that decodes to \<open>j\<close>, it returns \<open>j\<close> itself.
\<close>

theorem fetch_weather_request_and_body:
  assumes "valid_coordinate latitude longitude"
  shows "(let rq = \<lparr>url = ''https://api.open-meteo.com/v1/forecast'',
                  params = [(''latitude'', PFloat latitude),
                            (''longitude'', PFloat longitude),
                            (''current_weather'', PBool True),
                            (''hourly'', PStr ''temperature_2m,relative_humidity_2m,precipitation,wind_speed_10m''),
                            (''timezone'', PStr ''auto'')],
                  timeout = 10\<rparr>
        in calls (snd (fetch_weather latitude longitude n)) = calls n @ [rq] \<and>
           (\<forall>resp j. provider n (calls n) rq = Responds resp \<longrightarrow> status_code resp = 200
               \<longrightarrow> body_json resp = Some j
               \<longrightarrow> fst (fetch_weather latitude longitude n) = Inr j))"
  by (auto simp: fetch_weather_def requests_get_def OPEN_METEO_URL_def raise_for_status_def Let_def
       split: get_outcome.splits option.splits)

text \<open>The coordinates of the map's default centre, answered with status 200.\<close>

theorem fetch_weather_request_and_body_witness:
  "valid_coordinate 36.5 127.8 \<and>
   calls (snd (fetch_weather 36.5 127.8
     (answering (Responds \<lparr>status_code = 200, body_json = Some (JObj [(''hourly'', JObj [])])\<rparr>)))) =
     [\<lparr>url = ''https://api.open-meteo.com/v1/forecast'',
       params = [(''latitude'', PFloat 36.5), (''longitude'', PFloat 127.8),
                 (''current_weather'', PBool True),
                 (''hourly'', PStr ''temperature_2m,relative_humidity_2m,precipitation,wind_speed_10m''),
                 (''timezone'', PStr ''auto'')],
       timeout = 10\<rparr>] \<and>
   fst (fetch_weather 36.5 127.8
     (answering (Responds \<lparr>status_code = 200, body_json = Some (JObj [(''hourly'', JObj [])])\<rparr>))) =
     Inr (JObj [(''hourly'', JObj [])])"
proof -
  have v: "valid_coordinate 36.5 127.8"
    by (simp add: valid_coordinate_def)
  show ?thesis
    using v fetch_weather_request_and_body [OF v,
        of "answering (Responds \<lparr>status_code = 200, body_json = Some (JObj [(''hourly'', JObj [])])\<rparr>)"]
    by (simp add: answering_def Let_def)
qed


text \<open>
  C2, as amended. When \<open>requests.get\<close> raises (the network fails, the timeout elapses),
  \<open>fetch_weather\<close> fails with that very exception; when the provider answers with a
  status from 400 to 599, it fails with the \<open>HTTPError\<close> of that status. In both cases
  no value is returned. A response with any other status, 2xx or not, is not failed for
  its status: its decoded body is returned when the body decodes, and
  \<open>fetch_weather\<close> fails with \<open>JSONDecodeError\<close> when it does not. In every case
  \<open>requests.get\<close> is called exactly once: the record of calls grows by the one request.
\<close>

theorem fetch_weather_failure:
  "(let rq = \<lparr>url = ''https://api.open-meteo.com/v1/forecast'',
              params = [(''latitude'', PFloat latitude),
                        (''longitude'', PFloat longitude),
                        (''current_weather'', PBool True),
                        (''hourly'', PStr ''temperature_2m,relative_humidity_2m,precipitation,wind_speed_10m''),
                        (''timezone'', PStr ''auto'')],
              timeout = 10\<rparr>
    in calls (snd (fetch_weather latitude longitude n)) = calls n @ [rq] \<and>
       (\<forall>e. provider n (calls n) rq = Raises e
            \<longrightarrow> fst (fetch_weather latitude longitude n) = Inl e) \<and>
       (\<forall>resp. provider n (calls n) rq = Responds resp
            \<longrightarrow> 400 \<le> status_code resp \<longrightarrow> status_code resp < 600
            \<longrightarrow> fst (fetch_weather latitude longitude n) = Inl (HTTPError (status_code resp))) \<and>
       (\<forall>resp j. provider n (calls n) rq = Responds resp
            \<longrightarrow> status_code resp < 400 \<or> 600 \<le> status_code resp
            \<longrightarrow> body_json resp = Some j
            \<longrightarrow> fst (fetch_weather latitude longitude n) = Inr j) \<and>
       (\<forall>resp. provider n (calls n) rq = Responds resp
            \<longrightarrow> status_code resp < 400 \<or> 600 \<le> status_code resp
            \<longrightarrow> body_json resp = None
            \<longrightarrow> fst (fetch_weather latitude longitude n) = Inl JSONDecodeError))"
  by (auto simp: fetch_weather_def requests_get_def OPEN_METEO_URL_def raise_for_status_def Let_def
       split: get_outcome.splits option.splits)

text \<open>
  A timeout, a broken connection, the statuses 503 and 404, the status 301 with a body
  that decodes and the status 304 with one that does not.
\<close>

theorem fetch_weather_failure_witness:
  "fst (fetch_weather 36.5 127.8 (answering (Raises Timeout))) = Inl Timeout \<and>
   fst (fetch_weather 36.5 127.8 (answering (Raises ConnectionError))) = Inl ConnectionError \<and>
   fst (fetch_weather 36.5 127.8
     (answering (Responds \<lparr>status_code = 503, body_json = Some (JObj [])\<rparr>))) = Inl (HTTPError 503) \<and>
   fst (fetch_weather 36.5 127.8
     (answering (Responds \<lparr>status_code = 404, body_json = None\<rparr>))) = Inl (HTTPError 404) \<and>
   fst (fetch_weather 36.5 127.8
     (answering (Responds \<lparr>status_code = 301, body_json = Some (JObj [(''latitude'', JFloat 36.5)])\<rparr>))) =
     Inr (JObj [(''latitude'', JFloat 36.5)]) \<and>
   fst (fetch_weather 36.5 127.8
     (answering (Responds \<lparr>status_code = 304, body_json = None\<rparr>))) = Inl JSONDecodeError \<and>
   length (calls (snd (fetch_weather 36.5 127.8 (answering (Raises Timeout))))) = 1 \<and>
   length (calls (snd (fetch_weather 36.5 127.8
     (answering (Responds \<lparr>status_code = 503, body_json = Some (JObj [])\<rparr>))))) = 1"
  using fetch_weather_failure [of "36.5" "127.8" "answering (Raises Timeout)"]
    fetch_weather_failure [of "36.5" "127.8" "answering (Raises ConnectionError)"]
    fetch_weather_failure [of "36.5" "127.8"
      "answering (Responds \<lparr>status_code = 503, body_json = Some (JObj [])\<rparr>)"]
    fetch_weather_failure [of "36.5" "127.8"
      "answering (Responds \<lparr>status_code = 404, body_json = None\<rparr>)"]
    fetch_weather_failure [of "36.5" "127.8"
      "answering (Responds \<lparr>status_code = 301, body_json = Some (JObj [(''latitude'', JFloat 36.5)])\<rparr>)"]
    fetch_weather_failure [of "36.5" "127.8"
      "answering (Responds \<lparr>status_code = 304, body_json = None\<rparr>)"]
  by (simp add: answering_def Let_def)

text \<open>
  The claim as the specification words it speaks of every status outside 200 to 299.
  \<open>raise_for_status\<close> lets the statuses below 400 pass: a response with status 300 and
  a body that decodes is returned as a value.
\<close>

theorem fetch_weather_non_2xx_counterexample:
  "\<not> is_2xx 300 \<and>
   fst (fetch_weather 36.5 127.8
     (answering (Responds \<lparr>status_code = 300, body_json = Some (JObj [])\<rparr>))) = Inr (JObj [])"
  by (simp add: is_2xx_def fetch_weather_def requests_get_def raise_for_status_def answering_def Let_def)


section \<open>The hourly normaliser\<close>

text \<open>
  C3, as amended. Let the hourly section be a dict of lists whose integers fit \<open>int64\<close>,
  with a \<open>time\<close> list that holds a non-empty string which \<open>pd.to_datetime\<close> rejects.
  Then \<open>make_hourly_df\<close> fails and returns no table, not even the rows before the bad
  one: with the conversion error of a rejected element of the \<open>time\<close> list when the
  lists have one common length, and with the constructor's \<open>ValueError\<close> when they have
  not. The empty string, \<open>None\<close> and \<open>NaN\<close> are never rejected: each becomes the missing
  timestamp \<open>NaT\<close>.
\<close>

theorem malformed_time_fails:
  assumes "map_of weather_json ''hourly'' = Some (JObj h)"
    and "as_arrays h = Some cols"
    and "small_ints cols"
    and "map_of cols ''time'' = Some col"
    and "JStr s \<in> set col"
    and "s \<noteq> []"
    and "to_timestamp P (map Val col) (JStr s) = None"
  shows "(\<exists>e. make_hourly_df P weather_json = Inl e) \<and>
         (same_length cols \<longrightarrow>
            (\<exists>y\<in>set col. convert_element P (map Val col) (Val y) = None \<and>
               make_hourly_df P weather_json = Inl (DateParseError (Val y)))) \<and>
         (\<not> same_length cols \<longrightarrow> make_hourly_df P weather_json = Inl ValueError) \<and>
         convert_element P cells (Val (JStr [])) = Some NaT \<and>
         convert_element P cells (Val JNull) = Some NaT \<and>
         convert_element P cells NaN = Some NaT"
proof -
  from assms(4) have "cols \<noteq> []" by auto
  with as_arrays_empty [OF assms(2)] have h: "h \<noteq> []" by simp
  have c: "coerce_column col = map Val col"
    using assms(5) by (rule coerce_column_with_string)
  have "Val (JStr s) \<in> set (map Val col)"
    using assms(5) by simp
  moreover have "convert_element P (map Val col) (Val (JStr s)) = None"
    using assms(6,7) by (simp add: convert_element_def)
  ultimately obtain z where z: "z \<in> set (map Val col)"
    "convert_element P (map Val col) z = None"
    "pd_to_datetime P (map Val col) = Inl (DateParseError z)"
    unfolding pd_to_datetime_def by (blast dest: convert_all_rejects)
  from z(1) obtain y where y: "y \<in> set col" "z = Val y" by auto
  have r: "make_hourly_df P weather_json =
      (if same_length cols then Inl (DateParseError (Val y)) else Inl ValueError)"
    using make_hourly_df_arrays [OF assms(1,2,3), of P] h assms(4) c z(3) y(2) by simp
  have n: "convert_element P cells (Val (JStr [])) = Some NaT \<and>
           convert_element P cells (Val JNull) = Some NaT \<and>
           convert_element P cells NaN = Some NaT"
    by (simp add: convert_element_def)
  from r y z(2) n show ?thesis by auto
qed

theorem malformed_time_fails_witness:
  "make_hourly_df text_pandas
     [(''hourly'', JObj [(''time'', JArr [JStr ''2024-01-01T00:00'', JStr ''yesterday'']),
                         (''temperature_2m'', JArr [JInt 10, JInt 11])])] =
   Inl (DateParseError (Val (JStr ''yesterday'')))"
proof -
  let ?col = "[JStr ''2024-01-01T00:00'', JStr ''yesterday'']"
  let ?cols = "[(''time'', ?col), (''temperature_2m'', [JInt 10, JInt 11])]"
  let ?h = "[(''time'', JArr ?col), (''temperature_2m'', JArr [JInt 10, JInt 11])]"
  have 1: "map_of [(''hourly'', JObj ?h)] ''hourly'' = Some (JObj ?h)" by simp
  have 2: "as_arrays ?h = Some ?cols" by simp
  have 3: "small_ints ?cols" by (simp add: small_ints_def int64_def)
  have 4: "map_of ?cols ''time'' = Some ?col" by simp
  have 5: "JStr ''yesterday'' \<in> set ?col" by simp
  have 6: "''yesterday'' \<noteq> []" by simp
  have 7: "to_timestamp text_pandas (map Val ?col) (JStr ''yesterday'') = None"
    by (simp add: text_pandas_def)
  have 8: "same_length ?cols" by (simp add: same_length_def)
  have 9: "convert_element text_pandas (map Val ?col) (Val (JStr ''2024-01-01T00:00'')) \<noteq> None"
    by (simp add: convert_element_def text_pandas_def)
  from malformed_time_fails [OF 1 2 3 4 5 6 7] 8 9 show ?thesis by auto
qed

text \<open>
  The claim as the specification words it speaks of every malformed timestamp string.
  The empty string is one that \<open>pd.to_datetime\<close> does not reject: the table is
  returned, with \<open>NaT\<close> in the index of that row.
\<close>

theorem malformed_time_counterexample:
  "make_hourly_df text_pandas
     [(''hourly'', JObj [(''time'', JArr [JStr ''2024-01-01T00:00'', JStr []]),
                         (''temperature_2m'', JArr [JInt 10, JInt 11])])] =
   Inr \<lparr>index = DatetimeIndex [Timestamp ''2024-01-01T00:00'', NaT],
        columns = [(''Temperature ('' @ [CHR 0xC2, CHR 0xB0] @ ''C)'', [Val (JInt 10), Val (JInt 11)])]\<rparr>"
  by (simp add: make_hourly_df_def dict_get_def pd_DataFrame_def same_length_def column_cells_def
        coerce_column_def float_column_def int64_def time_to_index_def pd_to_datetime_def
        convert_element_def text_pandas_def rename_columns_def df_rename_def rename_map_def)

text \<open>
  C4. The empty response and the response whose \<open>hourly\<close> is the empty dict both
  give the empty table \<open>pd.DataFrame()\<close>, which has no rows and no columns.
\<close>

theorem empty_hourly_gives_empty_table:
  "make_hourly_df P [] = Inr empty_frame \<and>
   make_hourly_df P [(''hourly'', JObj [])] = Inr empty_frame \<and>
   n_rows (empty_frame :: 'ts frame) = 0 \<and>
   n_columns (empty_frame :: 'ts frame) = 0"
  by (simp add: make_hourly_df_def dict_get_def empty_frame_def n_rows_def n_columns_def)

text \<open>
  C5. For a response whose hourly section is
  \<open>{"time": ["2024-01-01T00:00", "2024-01-01T01:00"], "temperature_2m": [10, 11]}\<close>
  the table has the two converted timestamps as its index, in the given order, and the
  single column \<open>Temperature (\<degree>C)\<close> with the values 10 and 11. The timestamps
  \<open>t0\<close> and \<open>t1\<close> are whatever \<open>pd.to_datetime\<close> makes of the two strings.
\<close>

theorem two_row_example:
  assumes "map_of weather_json ''hourly'' =
             Some (JObj [(''time'', JArr [JStr ''2024-01-01T00:00'', JStr ''2024-01-01T01:00'']),
                         (''temperature_2m'', JArr [JInt 10, JInt 11])])"
    and "to_timestamp P [Val (JStr ''2024-01-01T00:00''), Val (JStr ''2024-01-01T01:00'')]
           (JStr ''2024-01-01T00:00'') = Some t0"
    and "to_timestamp P [Val (JStr ''2024-01-01T00:00''), Val (JStr ''2024-01-01T01:00'')]
           (JStr ''2024-01-01T01:00'') = Some t1"
  shows "make_hourly_df P weather_json =
           Inr \<lparr>index = DatetimeIndex [t0, t1],
                columns = [(''Temperature ('' @ [CHR 0xC2, CHR 0xB0] @ ''C)'',
                            [Val (JInt 10), Val (JInt 11)])]\<rparr>"
proof -
  let ?col = "[JStr ''2024-01-01T00:00'', JStr ''2024-01-01T01:00'']"
  let ?cols = "[(''time'', ?col), (''temperature_2m'', [JInt 10, JInt 11])]"
  have a: "as_arrays [(''time'', JArr ?col), (''temperature_2m'', JArr [JInt 10, JInt 11])] = Some ?cols"
    by simp
  have i: "small_ints ?cols"
    by (simp add: small_ints_def int64_def)
  have s: "same_length ?cols"
    by (simp add: same_length_def)
  have c: "coerce_column ?col = map Val ?col"
    by (simp add: coerce_column_def float_column_def)
  have v: "coerce_column [JInt 10, JInt 11] = [Val (JInt 10), Val (JInt 11)]"
    by (simp add: coerce_column_def float_column_def)
  have d: "pd_to_datetime P (map Val ?col) = Inr [t0, t1]"
    using assms(2,3) by (simp add: pd_to_datetime_def convert_element_def)
  show ?thesis
    using make_hourly_df_arrays [OF assms(1) a i, of P] s c v d
    by (simp add: display_label_def)
qed

theorem two_row_example_witness:
  "make_hourly_df text_pandas
     [(''latitude'', JFloat 52.52),
      (''hourly'', JObj [(''time'', JArr [JStr ''2024-01-01T00:00'', JStr ''2024-01-01T01:00'']),
                         (''temperature_2m'', JArr [JInt 10, JInt 11])])] =
   Inr \<lparr>index = DatetimeIndex [Timestamp ''2024-01-01T00:00'', Timestamp ''2024-01-01T01:00''],
        columns = [(''Temperature ('' @ [CHR 0xC2, CHR 0xB0] @ ''C)'',
                    [Val (JInt 10), Val (JInt 11)])]\<rparr> \<and>
   n_rows \<lparr>index = DatetimeIndex [Timestamp ''2024-01-01T00:00'', Timestamp ''2024-01-01T01:00''],
           columns = [(''Temperature ('' @ [CHR 0xC2, CHR 0xB0] @ ''C)'',
                       [Val (JInt 10), Val (JInt 11)])]\<rparr> = 2"
proof -
  let ?col = "[JStr ''2024-01-01T00:00'', JStr ''2024-01-01T01:00'']"
  let ?w = "[(''latitude'', JFloat 52.52),
      (''hourly'', JObj [(''time'', JArr ?col), (''temperature_2m'', JArr [JInt 10, JInt 11])])]"
  have 1: "map_of ?w ''hourly'' =
             Some (JObj [(''time'', JArr ?col), (''temperature_2m'', JArr [JInt 10, JInt 11])])"
    by simp
  have 2: "to_timestamp text_pandas [Val (JStr ''2024-01-01T00:00''), Val (JStr ''2024-01-01T01:00'')]
             (JStr ''2024-01-01T00:00'') = Some (Timestamp ''2024-01-01T00:00'')"
    by (simp add: text_pandas_def)
  have 3: "to_timestamp text_pandas [Val (JStr ''2024-01-01T00:00''), Val (JStr ''2024-01-01T01:00'')]
             (JStr ''2024-01-01T01:00'') = Some (Timestamp ''2024-01-01T01:00'')"
    by (simp add: text_pandas_def)
  from two_row_example [OF 1 2 3] show ?thesis
    by (simp add: n_rows_def)
qed




text \<open>
  C7. Renaming is idempotent: lines 47 to 53 applied to a frame they have already been
  applied to change nothing, so the column names after two applications are those after
  one; no display label is itself a key of \<open>rename_map\<close>.
\<close>

theorem rename_idempotent:
  "rename_columns (rename_columns df) = rename_columns df \<and>
   map fst (columns (rename_columns (rename_columns df))) = map fst (columns (rename_columns df)) \<and>
   set (map snd rename_map) \<inter> set (map fst rename_map) = {}"
proof -
  obtain i cs where df: "df = \<lparr>index = i, columns = cs\<rparr>"
    by (cases df) simp
  have "rename_columns (rename_columns df) = rename_columns df"
    by (simp add: df rename_columns_frame display_label_idem comp_def)
  moreover have "set (map snd rename_map) \<inter> set (map fst rename_map) = {}"
    by (simp add: rename_map_def)
  ultimately show ?thesis by simp
qed

text \<open>
  C8. The table depends on the response only through its \<open>hourly\<close> key: two
  responses that agree there give the same result (the same table or the same error),
  whatever \<open>current_weather\<close> and \<open>current\<close> hold, and removing both blocks from a
  response changes nothing.
\<close>

theorem hourly_independent_of_current:
  assumes "map_of w1 ''hourly'' = map_of w2 ''hourly''"
  shows "make_hourly_df P w1 = make_hourly_df P w2 \<and>
         make_hourly_df P (filter (\<lambda>kv. fst kv \<noteq> ''current_weather'' \<and> fst kv \<noteq> ''current'') w1) =
           make_hourly_df P w2"
proof -
  have "map_of (filter (\<lambda>kv. fst kv \<noteq> ''current_weather'' \<and> fst kv \<noteq> ''current'') w1) ''hourly'' =
        map_of w1 ''hourly''"
    by (rule map_of_filter_keep [where Q = "\<lambda>k. k \<noteq> ''current_weather'' \<and> k \<noteq> ''current''"]) simp
  with assms show ?thesis
    by (simp add: make_hourly_df_def dict_get_def)
qed

theorem hourly_independent_of_current_witness:
  "make_hourly_df text_pandas
     [(''current_weather'', JObj [(''temperature'', JFloat 3.5), (''windspeed'', JFloat 12)]),
      (''hourly'', JObj [(''time'', JArr [JStr ''2024-01-01T00:00'']), (''wind_speed_10m'', JArr [JInt 7])])] =
   make_hourly_df text_pandas
     [(''hourly'', JObj [(''time'', JArr [JStr ''2024-01-01T00:00'']), (''wind_speed_10m'', JArr [JInt 7])])] \<and>
   make_hourly_df text_pandas
     [(''hourly'', JObj [(''time'', JArr [JStr ''2024-01-01T00:00'']), (''wind_speed_10m'', JArr [JInt 7])])] =
   Inr \<lparr>index = DatetimeIndex [Timestamp ''2024-01-01T00:00''],
        columns = [(''Wind speed (km/h)'', [Val (JInt 7)])]\<rparr>"
proof -
  let ?h = "JObj [(''time'', JArr [JStr ''2024-01-01T00:00'']), (''wind_speed_10m'', JArr [JInt 7])]"
  let ?w1 = "[(''current_weather'', JObj [(''temperature'', JFloat 3.5), (''windspeed'', JFloat 12)]),
      (''hourly'', ?h)]"
  let ?w2 = "[(''hourly'', ?h)]"
  have 1: "map_of ?w1 ''hourly'' = map_of ?w2 ''hourly''" by simp
  have 2: "make_hourly_df text_pandas ?w2 =
      Inr \<lparr>index = DatetimeIndex [Timestamp ''2024-01-01T00:00''],
           columns = [(''Wind speed (km/h)'', [Val (JInt 7)])]\<rparr>"
    by (simp add: make_hourly_df_def dict_get_def pd_DataFrame_def same_length_def column_cells_def
          coerce_column_def float_column_def int64_def time_to_index_def pd_to_datetime_def
          convert_element_def text_pandas_def rename_columns_def df_rename_def rename_map_def)
  from hourly_independent_of_current [OF 1, of text_pandas] 2 show ?thesis
    by simp
qed

text \<open>
  C9, as amended. A non-empty hourly section of lists of one common length \<open>n\<close>, with
  integers that fit \<open>int64\<close> and no \<open>time\<close> key, gives a table and no error: the
  positional index of length \<open>n\<close>, one row per entry, and one column per list under the
  display label of its key, holding the \<open>n\<close> cells pandas coerces the list to.
\<close>

theorem no_time_key_positional_index:
  assumes "map_of weather_json ''hourly'' = Some (JObj h)"
    and "h \<noteq> []"
    and "as_arrays h = Some cols"
    and "small_ints cols"
    and "same_length cols"
    and "''time'' \<notin> set (map fst h)"
  shows "\<exists>n. (\<forall>c\<in>set cols. length (snd c) = n \<and> length (coerce_column (snd c)) = n) \<and>
           make_hourly_df P weather_json =
             Inr \<lparr>index = RangeIndex n,
                  columns = map (\<lambda>c. (display_label (fst c), coerce_column (snd c))) cols\<rparr>"
proof -
  from assms(2) as_arrays_empty [OF assms(3)] obtain c cs where cols: "cols = c # cs"
    by (cases cols) auto
  from assms(3,6) have "map_of cols ''time'' = None"
    by (simp add: map_of_eq_None_iff as_arrays_keys [symmetric])
  with make_hourly_df_arrays [OF assms(1,3,4), of P] assms(2,5) cols
  have r: "make_hourly_df P weather_json =
      Inr \<lparr>index = RangeIndex (length (snd c)),
           columns = map (\<lambda>c. (display_label (fst c), coerce_column (snd c))) cols\<rparr>"
    by simp
  from assms(5) have "\<forall>d\<in>set cols. length (snd d) = length (snd c)"
    unfolding cols by (simp add: same_length_def list_all_iff)
  then have "\<forall>d\<in>set cols. length (snd d) = length (snd c) \<and>
                length (coerce_column (snd d)) = length (snd c)"
    by (simp add: length_coerce_column)
  with r show ?thesis by blast
qed

theorem no_time_key_positional_index_witness:
  "make_hourly_df text_pandas
     [(''hourly'', JObj [(''temperature_2m'', JArr [JInt 10, JInt 11, JInt 12]),
                         (''relative_humidity_2m'', JArr [JInt 80, JNull, JInt 82]),
                         (''precipitation'', JArr [JFloat 0.5, JInt 0, JInt 1]),
                         (''wind_speed_10m'', JArr [JInt 5, JInt 6, JInt 7])])] =
   Inr \<lparr>index = RangeIndex 3,
        columns = [(''Temperature ('' @ [CHR 0xC2, CHR 0xB0] @ ''C)'',
                      [Val (JInt 10), Val (JInt 11), Val (JInt 12)]),
                   (''Humidity (%)'', [Val (JFloat 80), NaN, Val (JFloat 82)]),
                   (''Precipitation (mm)'', [Val (JFloat 0.5), Val (JFloat 0), Val (JFloat 1)]),
                   (''Wind speed (km/h)'', [Val (JInt 5), Val (JInt 6), Val (JInt 7)])]\<rparr>"
proof -
  let ?h = "[(''temperature_2m'', JArr [JInt 10, JInt 11, JInt 12]),
             (''relative_humidity_2m'', JArr [JInt 80, JNull, JInt 82]),
             (''precipitation'', JArr [JFloat 0.5, JInt 0, JInt 1]),
             (''wind_speed_10m'', JArr [JInt 5, JInt 6, JInt 7])]"
  let ?cols = "[(''temperature_2m'', [JInt 10, JInt 11, JInt 12]),
             (''relative_humidity_2m'', [JInt 80, JNull, JInt 82]),
             (''precipitation'', [JFloat 0.5, JInt 0, JInt 1]),
             (''wind_speed_10m'', [JInt 5, JInt 6, JInt 7])]"
  have 1: "map_of [(''hourly'', JObj ?h)] ''hourly'' = Some (JObj ?h)" by simp
  have 2: "?h \<noteq> []" by simp
  have 3: "as_arrays ?h = Some ?cols" by simp
  have 4: "small_ints ?cols" by (simp add: small_ints_def int64_def)
  have 5: "same_length ?cols" by (simp add: same_length_def)
  have 6: "''time'' \<notin> set (map fst ?h)" by simp
  have f: "float64_of_int 80 = 80" "float64_of_int 82 = 82" "float64_of_int 0 = 0"
    "float64_of_int 1 = 1"
    by code_simp+
  from no_time_key_positional_index [OF 1 2 3 4 5 6, of text_pandas] show ?thesis
    by (auto simp: display_label_def coerce_column_def float_column_def f)
qed

text \<open>
  The claim as the specification words it speaks of every non-empty hourly section
  without a \<open>time\<close> key. When two of its lists differ in length the constructor raises
  and there is no table.
\<close>

theorem no_time_key_counterexample:
  "make_hourly_df text_pandas
     [(''hourly'', JObj [(''temperature_2m'', JArr [JInt 1, JInt 2]),
                         (''precipitation'', JArr [JInt 1])])] = Inl ValueError"
  by (simp add: make_hourly_df_def dict_get_def pd_DataFrame_def same_length_def)

text \<open>
  C10. When two lists of the hourly section differ in length, the constructor of the table
  raises and \<open>make_hourly_df\<close> returns no table: nothing is padded or truncated.
\<close>

theorem mismatched_lengths_fail:
  assumes "map_of weather_json ''hourly'' = Some (JObj h)"
    and "as_arrays h = Some cols"
    and "(k1, xs) \<in> set cols"
    and "(k2, ys) \<in> set cols"
    and "length xs \<noteq> length ys"
  shows "make_hourly_df P weather_json = Inl ValueError"
proof -
  have "\<not> same_length cols"
  proof
    assume "same_length cols"
    then have "\<forall>c\<in>set cols. \<forall>d\<in>set cols. length (snd c) = length (snd d)"
      by (simp only: same_length_iff)
    from bspec [OF bspec [OF this assms(3)] assms(4)] assms(5) show False
      by simp
  qed
  then show ?thesis
    by (rule make_hourly_df_mismatch [OF assms(1,2)])
qed

theorem mismatched_lengths_fail_witness:
  "make_hourly_df text_pandas
     [(''hourly'', JObj [(''time'', JArr [JStr ''2024-01-01T00:00'', JStr ''2024-01-01T01:00'']),
                         (''temperature_2m'', JArr [JInt 10])])] = Inl ValueError"
proof -
  let ?col = "[JStr ''2024-01-01T00:00'', JStr ''2024-01-01T01:00'']"
  let ?h = "[(''time'', JArr ?col), (''temperature_2m'', JArr [JInt 10])]"
  let ?cols = "[(''time'', ?col), (''temperature_2m'', [JInt 10])]"
  have 1: "map_of [(''hourly'', JObj ?h)] ''hourly'' = Some (JObj ?h)" by simp
  have 2: "as_arrays ?h = Some ?cols" by simp
  have 3: "(''time'', ?col) \<in> set ?cols" by simp
  have 4: "(''temperature_2m'', [JInt 10]) \<in> set ?cols" by simp
  have 5: "length ?col \<noteq> length [JInt 10]" by simp
  from mismatched_lengths_fail [OF 1 2 3 4 5] show ?thesis .
qed

end
